theory Spec2Isabelle
  imports Complex_Main "HOL-Library.Sublist" "HOL-Library.Multiset"
begin

section \<open>The AutoAssess dashboard view-model (frontend/js/dashboard.js)\<close>

text \<open>
  The script keeps five module-level variables (\<open>submissions\<close>, \<open>statistics\<close>,
  \<open>monitoringActive\<close>, \<open>sortColumn\<close>, \<open>sortDirection\<close>) and writes to the page.
  The model threads one record holding those variables and the parts of the page the
  functions write to. Every function of the script becomes a function on that record.
  A JavaScript exception leaves the assignments made before it in place, so a function
  that can throw returns the state it reached together with the exception.

  An \<open>await\<close> is modelled by handing the function the response that the awaited request
  produced; the handlers are followed one at a time, without interleaving of other
  handlers at the \<open>await\<close> points.
\<close>

subsection \<open>Data received from the service\<close>

text \<open>
  The records follow the JSON objects of the service. A field is \<open>None\<close> when the
  property is missing (or \<open>null\<close>); strings are strings, numbers are rationals (a
  finite double is one, and only the order of two numbers and the sign of their
  difference are used, both of which the doubles share with the rationals).
\<close>

record CategoryData =
  score :: "rat option"
  max_score :: "rat option"
  percentage :: "rat option"

record Assessment =
  total_score :: "rat option"
  grade :: "string option"
  breakdown :: "(string \<times> CategoryData) list option"
  strengths :: "string list option"
  improvements :: "string list option"
  recommendations :: "string list option"

record Submission =
  oid :: string  \<comment> \<open>the property \<open>_id\<close>\<close>
  student_id :: "string option"
  student_name :: "string option"
  file_name :: "string option"
  submitted_at :: "string option"
  status :: "string option"
  assessment :: "Assessment option"

record Statistics =
  total_submissions :: "rat option"
  evaluated :: "rat option"
  pending :: "rat option"
  average_score :: "rat option"
  pass_rate :: "rat option"

text \<open>The JSON envelope \<open>data\<close> of a response, with the properties the script reads.\<close>

record Envelope =
  data_success :: bool
  data_error :: "string option"
  data_message :: "string option"
  data_submissions :: "Submission list option"
  data_statistics :: "Statistics option"
  data_monitoring_active :: bool
  data_submission :: "Submission option"
  data_download_url :: "string option"

text \<open>
  What \<open>fetch\<close> and the reading of the body can produce: \<open>fetch\<close> rejects (no
  connection); the content type is not JSON and the body is read as text; the content
  type is JSON but \<open>response.json()\<close> rejects with the given message; the body is
  the JSON value \<open>null\<close>; the body is a JSON object. The number is the HTTP status.
  A JSON body that is a number, a string or an array has none of the properties the
  script reads, and behaves as an object without them.
\<close>

datatype response =
    FetchRejected string
  | NonJson nat string
  | JsonUnparsable nat string
  | JsonNull nat
  | Json nat Envelope

datatype js_error = JsError string | TypeError

subsection \<open>Functions of the host\<close>

text \<open>
  The script calls functions of the browser whose results depend on the host (its
  locale, its date parser, its number formatting). They are parameters of the model:
  \<open>localeCompare h a b\<close> is \<open>a.localeCompare(b, undefined, {numeric: true,
  sensitivity: 'base'})\<close>, \<open>parseDate h s\<close> is the time value of \<open>new Date(s)\<close>
  (\<open>None\<close> for an invalid date), \<open>stringToNumber h s\<close> is the number a string converts
  to (\<open>None\<close> for \<open>NaN\<close>), \<open>toFixed h v d\<close> is \<open>v.toFixed(d)\<close>,
  \<open>numberToString h v\<close> is \<open>String(v)\<close>, \<open>dateToLocaleString h s\<close> is the text
  \<open>formatDate\<close> obtains from \<open>toLocaleString\<close>, and \<open>typeErrorMessage h\<close> is the
  message of the \<open>TypeError\<close> the engine raises on reading a property of \<open>null\<close> or
  \<open>undefined\<close>. \<open>unicodeToLowerCase h s\<close>, \<open>unicodeToUpperCase h s\<close> and
  \<open>unicodeCharAt0 h s\<close> are \<open>s.toLowerCase()\<close>, \<open>s.toUpperCase()\<close> and
  \<open>s.charAt(0)\<close> by the host's Unicode tables; the model consults them only for text
  outside ASCII (see below).
\<close>

record host =
  localeCompare :: "string \<Rightarrow> string \<Rightarrow> int"
  parseDate :: "string \<Rightarrow> int option"
  stringToNumber :: "string \<Rightarrow> rat option"
  toFixed :: "rat \<Rightarrow> nat \<Rightarrow> string"
  numberToString :: "rat \<Rightarrow> string"
  dateToLocaleString :: "string \<Rightarrow> string"
  typeErrorMessage :: string
  unicodeToLowerCase :: "string \<Rightarrow> string"
  unicodeToUpperCase :: "string \<Rightarrow> string"
  unicodeCharAt0 :: "string \<Rightarrow> string"

subsection \<open>Strings\<close>

text \<open>
  A string is a list of 8-bit characters: an ASCII character stands for itself, any
  other character for the bytes of its UTF-8 form. On a string of ASCII characters
  \<open>toLowerCase\<close> is the mapping of A to Z onto a to z and \<open>toUpperCase\<close> its
  converse, whatever the host; on a string with other characters the case mapping is
  that of the host's Unicode tables, which lowers or raises every cased letter and may
  change the length. Likewise \<open>charAt(0)\<close> is the first character when that is ASCII.
  \<open>str_includes s t\<close> is \<open>s.includes(t)\<close>.
\<close>

definition is_ascii :: "string \<Rightarrow> bool" where
  "is_ascii s = list_all (\<lambda>c. \<not> digit7 c) s"

definition toLowerCase_char :: "char \<Rightarrow> char" where
  "toLowerCase_char c =
     (case map_of (zip ''ABCDEFGHIJKLMNOPQRSTUVWXYZ'' ''abcdefghijklmnopqrstuvwxyz'') c of
        Some l \<Rightarrow> l | None \<Rightarrow> c)"

definition toLowerCase :: "host \<Rightarrow> string \<Rightarrow> string" where
  "toLowerCase h s = (if is_ascii s then map toLowerCase_char s else unicodeToLowerCase h s)"

definition toUpperCase_char :: "char \<Rightarrow> char" where
  "toUpperCase_char c =
     (case map_of (zip ''abcdefghijklmnopqrstuvwxyz'' ''ABCDEFGHIJKLMNOPQRSTUVWXYZ'') c of
        Some u \<Rightarrow> u | None \<Rightarrow> c)"

definition toUpperCase :: "host \<Rightarrow> string \<Rightarrow> string" where
  "toUpperCase h s = (if is_ascii s then map toUpperCase_char s else unicodeToUpperCase h s)"

definition charAt0 :: "host \<Rightarrow> string \<Rightarrow> string" where
  "charAt0 h s = (if is_ascii (take 1 s) then take 1 s else unicodeCharAt0 h s)"

fun str_includes :: "string \<Rightarrow> string \<Rightarrow> bool" where
  "str_includes [] t = (t = [])"
| "str_includes (c # s) t = (prefix t (c # s) \<or> str_includes s t)"

text \<open>The decimal digits of a status code or a count, as a template literal prints them.\<close>

fun digits :: "nat \<Rightarrow> string" where
  "digits n =
     (if n < 10 then [''0123456789'' ! n]
      else digits (n div 10) @ [''0123456789'' ! (n mod 10)])"

text \<open>A string property is truthy when it is there and not empty.\<close>

fun truthy :: "string option \<Rightarrow> bool" where
  "truthy None = False"
| "truthy (Some s) = (s \<noteq> [])"

text \<open>\<open>x || d\<close> on a string property.\<close>

fun or_else :: "string option \<Rightarrow> string \<Rightarrow> string" where
  "or_else None d = d"
| "or_else (Some s) d = (if s = [] then d else s)"

subsection \<open>The state\<close>

datatype direction = Asc | Desc

datatype column =
    Col_student_id | Col_student_name | Col_file_name | Col_submitted_at
  | Col_status | Col_score | Col_grade

datatype sort_type = T_string | T_date | T_number

datatype severity = N_info | N_success | N_error

text \<open>One table row, as \<open>renderSubmissions\<close> fills its cells.\<close>

record Row =
  cell_student_id :: string
  cell_student_name :: string
  cell_file_name :: string
  cell_submitted_at :: string
  badge_class :: string
  badge_text :: string
  cell_score :: string
  cell_grade_class :: string
  cell_grade :: string
  details_button :: string
  report_button :: "string option"

text \<open>
  The five variables of the script, then the page: the two inputs, the table body, the
  count line, the empty-state and loading blocks, the statistics panel, the monitoring
  panel, the arrow on the sorted header, and the notifications posted so far (each stays
  on the page for about three seconds; the list records every one that was posted).
\<close>

record State =
  submissions :: "Submission list"
  statistics :: Statistics
  monitoringActive :: bool
  sortColumn :: "column option"
  sortDirection :: direction
  searchInput :: string
  statusFilter :: string
  submissionsBody :: "Row list"
  submissionCount :: string
  emptyState :: bool
  loadingIndicator :: bool
  statsPanel :: "string list"
  monitoringStatus :: string
  startMonitoringBtn_disabled :: bool
  stopMonitoringBtn_disabled :: bool
  sortIndicator :: "(column \<times> direction) option"
  notifications :: "(severity \<times> string) list"

subsection \<open>Utility functions\<close>

definition showNotification :: "string \<Rightarrow> severity \<Rightarrow> State \<Rightarrow> State" where
  "showNotification msg type st = st\<lparr>notifications := notifications st @ [(type, msg)]\<rparr>"

definition showLoading :: "bool \<Rightarrow> State \<Rightarrow> State" where
  "showLoading show st = st\<lparr>loadingIndicator := show\<rparr>"

definition formatDate :: "host \<Rightarrow> string option \<Rightarrow> string" where
  "formatDate h dateString =
     (case dateString of
        None \<Rightarrow> ''N/A''
      | Some s \<Rightarrow> if s = [] then ''N/A'' else dateToLocaleString h s)"

definition getGradeClass :: "host \<Rightarrow> string option \<Rightarrow> string" where
  "getGradeClass h g =
     (case g of
        None \<Rightarrow> ''f''
      | Some s \<Rightarrow> if s = [] then ''f'' else toLowerCase h (charAt0 h s))"

definition error_message :: "host \<Rightarrow> js_error \<Rightarrow> string" where
  "error_message h e = (case e of JsError m \<Rightarrow> m | TypeError \<Rightarrow> typeErrorMessage h)"

subsection \<open>apiCall\<close>

definition response_ok :: "nat \<Rightarrow> bool" where
  "response_ok n = (200 \<le> n \<and> n \<le> 299)"

text \<open>
  The body of the \<open>try\<close> block: the value returned, or the exception thrown in it.
  The message of a failed request is \<open>data?.error || data?.message || `Request failed
  with status N`\<close>.
\<close>

definition failure_message :: "nat \<Rightarrow> Envelope \<Rightarrow> string" where
  "failure_message n d =
     or_else (data_error d)
       (or_else (data_message d) (''Request failed with status '' @ digits n))"

fun apiCall_try :: "response \<Rightarrow> js_error + Envelope" where
  "apiCall_try (FetchRejected m) = Inl (JsError m)"
| "apiCall_try (NonJson n text) =
     Inl (JsError (if text \<noteq> [] then text
                   else ''Unexpected response format (status '' @ digits n @ '')''))"
| "apiCall_try (JsonUnparsable n m) = Inl (JsError m)"
| "apiCall_try (JsonNull n) =
     (if \<not> response_ok n then Inl (JsError (''Request failed with status '' @ digits n))
      else Inl TypeError)"
| "apiCall_try (Json n d) =
     (if \<not> response_ok n \<or> \<not> data_success d then Inl (JsError (failure_message n d))
      else Inr d)"

text \<open>
  The \<open>catch\<close> block posts the notification and throws the error again. The endpoint,
  the method and the body select the request; the model is given the response to it.
\<close>

definition apiCall :: "host \<Rightarrow> response \<Rightarrow> State \<Rightarrow> (js_error + Envelope) \<times> State" where
  "apiCall h r st =
     (case apiCall_try r of
        Inl e \<Rightarrow> (Inl e, showNotification (''Error: '' @ error_message h e) N_error st)
      | Inr d \<Rightarrow> (Inr d, st))"

subsection \<open>renderSubmissions\<close>

text \<open>\<open>submission.assessment?.grade\<close> and \<open>submission.assessment?.total_score\<close>.\<close>

definition assessment_grade :: "Submission \<Rightarrow> string option" where
  "assessment_grade s = (case assessment s of None \<Rightarrow> None | Some a \<Rightarrow> grade a)"

definition assessment_total_score :: "Submission \<Rightarrow> rat option" where
  "assessment_total_score s = (case assessment s of None \<Rightarrow> None | Some a \<Rightarrow> total_score a)"

text \<open>
  The score cell: \<open>submission.assessment ? submission.assessment.total_score.toFixed(2)
  : '-'\<close>, which throws when there is an assessment without a total score.
\<close>

definition score_cell :: "host \<Rightarrow> Submission \<Rightarrow> js_error + string" where
  "score_cell h s =
     (case assessment s of
        None \<Rightarrow> Inr ''-''
      | Some a \<Rightarrow> (case total_score a of None \<Rightarrow> Inl TypeError | Some v \<Rightarrow> Inr (toFixed h v 2)))"

text \<open>
  One row of the template. \<open>submission.status.toUpperCase()\<close> throws when the status
  is missing; it is evaluated before the score cell.
\<close>

definition render_row :: "host \<Rightarrow> Submission \<Rightarrow> js_error + Row" where
  "render_row h s =
     (case status s of
        None \<Rightarrow> Inl TypeError
      | Some st \<Rightarrow>
          (case score_cell h s of
             Inl e \<Rightarrow> Inl e
           | Inr score_text \<Rightarrow>
               Inr \<lparr> cell_student_id = or_else (student_id s) ''N/A'',
                     cell_student_name = or_else (student_name s) ''N/A'',
                     cell_file_name = or_else (file_name s) ''N/A'',
                     cell_submitted_at = formatDate h (submitted_at s),
                     badge_class = ''status-'' @ st,
                     badge_text = toUpperCase h st,
                     cell_score = score_text,
                     cell_grade_class = ''grade-'' @ getGradeClass h (assessment_grade s),
                     cell_grade = or_else (assessment_grade s) ''-'',
                     details_button = oid s,
                     report_button = (if st = ''evaluated'' then Some (oid s) else None) \<rparr>))"

text \<open>\<open>dataToRender.map(...)\<close>: the rows in order, or the first exception.\<close>

fun render_rows :: "host \<Rightarrow> Submission list \<Rightarrow> js_error + Row list" where
  "render_rows h [] = Inr []"
| "render_rows h (s # ss) =
     (case render_row h s of
        Inl e \<Rightarrow> Inl e
      | Inr r \<Rightarrow> (case render_rows h ss of Inl e \<Rightarrow> Inl e | Inr rs \<Rightarrow> Inr (r # rs)))"

text \<open>
  The argument is \<open>None\<close> for a call without argument. An array is truthy even when
  empty, so \<open>filteredSubmissions || submissions\<close> takes the argument whenever one is
  given. The result is the exception thrown, if any, and the state reached: the count
  line and the empty-state block are written before the rows are built, the table body
  after.
\<close>

definition renderSubmissions ::
  "host \<Rightarrow> Submission list option \<Rightarrow> State \<Rightarrow> js_error option \<times> State" where
  "renderSubmissions h filteredSubmissions st =
     (let dataToRender = (case filteredSubmissions of Some f \<Rightarrow> f | None \<Rightarrow> submissions st);
          n = length dataToRender;
          st1 = st\<lparr>submissionCount :=
                      digits n @ '' submission'' @ (if n \<noteq> 1 then ''s'' else [])\<rparr>
      in if n = 0 then (None, st1\<lparr>emptyState := True, submissionsBody := []\<rparr>)
         else (case render_rows h dataToRender of
                 Inl e \<Rightarrow> (Some e, st1\<lparr>emptyState := False\<rparr>)
               | Inr rows \<Rightarrow> (None, st1\<lparr>emptyState := False, submissionsBody := rows\<rparr>)))"

subsection \<open>filterSubmissions\<close>

text \<open>\<open>field && field.toLowerCase().includes(searchTerm)\<close>.\<close>

definition field_includes :: "host \<Rightarrow> string option \<Rightarrow> string \<Rightarrow> bool" where
  "field_includes h field searchTerm =
     (case field of
        None \<Rightarrow> False
      | Some v \<Rightarrow> v \<noteq> [] \<and> str_includes (toLowerCase h v) searchTerm)"

definition matchesSearch :: "host \<Rightarrow> string \<Rightarrow> Submission \<Rightarrow> bool" where
  "matchesSearch h searchTerm s =
     (field_includes h (student_id s) searchTerm \<or>
      field_includes h (student_name s) searchTerm \<or>
      field_includes h (file_name s) searchTerm)"

definition matchesStatus :: "string \<Rightarrow> Submission \<Rightarrow> bool" where
  "matchesStatus statusFilterValue s =
     (statusFilterValue = [] \<or> status s = Some statusFilterValue)"

text \<open>
  The callback of \<open>submissions.filter\<close>, given the text of the search box and the value
  of the status select.
\<close>

definition filter_callback :: "host \<Rightarrow> string \<Rightarrow> string \<Rightarrow> Submission \<Rightarrow> bool" where
  "filter_callback h searchValue statusFilterValue s =
     (matchesSearch h (toLowerCase h searchValue) s \<and> matchesStatus statusFilterValue s)"

definition filtered :: "host \<Rightarrow> State \<Rightarrow> Submission list" where
  "filtered h st =
     filter (filter_callback h (searchInput st) (statusFilter st)) (submissions st)"

definition filterSubmissions :: "host \<Rightarrow> State \<Rightarrow> js_error option \<times> State" where
  "filterSubmissions h st = renderSubmissions h (Some (filtered h st)) st"

subsection \<open>sortTable\<close>

text \<open>The rows of \<open>sortableColumns\<close>: each header calls \<open>sortTable\<close> with its key and type.\<close>

definition sortableColumns :: "(column \<times> sort_type) list" where
  "sortableColumns =
     [(Col_student_id, T_string), (Col_student_name, T_string), (Col_file_name, T_string),
      (Col_submitted_at, T_date), (Col_status, T_string), (Col_score, T_number),
      (Col_grade, T_string)]"

text \<open>The value compared is a number (the score or its default) or a string.\<close>

datatype jsval = Num rat | Str string

text \<open>\<open>a[column]\<close> for the keys that are properties of a submission.\<close>

fun property :: "column \<Rightarrow> Submission \<Rightarrow> string option" where
  "property Col_student_id a = student_id a"
| "property Col_student_name a = student_name a"
| "property Col_file_name a = file_name a"
| "property Col_submitted_at a = submitted_at a"
| "property Col_status a = status a"
| "property Col_score a = None"
| "property Col_grade a = None"

text \<open>
  \<open>a.assessment?.total_score ?? -1\<close> for the score, \<open>a.assessment?.grade || 'Z'\<close> for
  the grade, \<open>a[column] || ''\<close> otherwise.
\<close>

definition sort_value :: "column \<Rightarrow> Submission \<Rightarrow> jsval" where
  "sort_value col a =
     (if col = Col_score then
        Num (case assessment_total_score a of Some v \<Rightarrow> v | None \<Rightarrow> - 1)
      else if col = Col_grade then Str (or_else (assessment_grade a) ''Z'')
      else Str (or_else (property col a) []))"

text \<open>
  The conversions the three comparisons apply to a value: to a number for the
  subtraction, to a time value by \<open>new Date\<close> (a number is taken as milliseconds,
  truncated, and is invalid beyond 8.64e15), to a string by \<open>String\<close>.
\<close>

fun toNumber :: "host \<Rightarrow> jsval \<Rightarrow> rat option" where
  "toNumber h (Num v) = Some v"
| "toNumber h (Str s) = stringToNumber h s"

fun timeValue :: "host \<Rightarrow> jsval \<Rightarrow> int option" where
  "timeValue h (Str s) = parseDate h s"
| "timeValue h (Num v) =
     (if \<bar>v\<bar> \<le> 8640000000000000 then Some (if 0 \<le> v then \<lfloor>v\<rfloor> else \<lceil>v\<rceil>) else None)"

fun toString :: "host \<Rightarrow> jsval \<Rightarrow> string" where
  "toString h (Num v) = numberToString h v"
| "toString h (Str s) = s"

text \<open>The number \<open>comparison\<close>; \<open>None\<close> is \<open>NaN\<close>.\<close>

fun comparison :: "host \<Rightarrow> sort_type \<Rightarrow> jsval \<Rightarrow> jsval \<Rightarrow> rat option" where
  "comparison h T_number valueA valueB =
     (case (toNumber h valueA, toNumber h valueB) of
        (Some x, Some y) \<Rightarrow> Some (x - y)
      | _ \<Rightarrow> None)"
| "comparison h T_date valueA valueB =
     (case (timeValue h valueA, timeValue h valueB) of
        (Some x, Some y) \<Rightarrow> Some (of_int (x - y))
      | _ \<Rightarrow> None)"
| "comparison h T_string valueA valueB =
     Some (of_int (localeCompare h (toString h valueA) (toString h valueB)))"

text \<open>The comparator handed to \<open>submissions.sort\<close>.\<close>

definition compareFn ::
  "host \<Rightarrow> column \<Rightarrow> sort_type \<Rightarrow> direction \<Rightarrow> Submission \<Rightarrow> Submission \<Rightarrow> rat option" where
  "compareFn h col type dir a b =
     (let c = comparison h type (sort_value col a) (sort_value col b)
      in if dir = Asc then c else map_option uminus c)"

text \<open>
  \<open>Array.prototype.sort\<close> is stable, and it treats a comparator result of \<open>NaN\<close> as 0.
  The model is the stable insertion sort: going from the last element to the first, each
  element is put in front of the elements already sorted and moves behind exactly those
  that the comparator orders before it (a positive result). For a comparator that is a
  consistent ordering this is the order the language prescribes. For any other (a date
  comparison on invalid dates) the language leaves the order to the engine and only
  promises a rearrangement of the elements.
\<close>

fun positive :: "rat option \<Rightarrow> bool" where
  "positive None = False"
| "positive (Some v) = (0 < v)"

fun sort_insert :: "('a \<Rightarrow> 'a \<Rightarrow> rat option) \<Rightarrow> 'a \<Rightarrow> 'a list \<Rightarrow> 'a list" where
  "sort_insert cmp x [] = [x]"
| "sort_insert cmp x (y # ys) =
     (if positive (cmp x y) then y # sort_insert cmp x ys else x # y # ys)"

definition array_sort :: "('a \<Rightarrow> 'a \<Rightarrow> rat option) \<Rightarrow> 'a list \<Rightarrow> 'a list" where
  "array_sort cmp xs = foldr (sort_insert cmp) xs []"

definition updateSortIndicators :: "State \<Rightarrow> State" where
  "updateSortIndicators st =
     st\<lparr>sortIndicator :=
          (case sortColumn st of None \<Rightarrow> None | Some c \<Rightarrow> Some (c, sortDirection st))\<rparr>"

text \<open>The first statement of \<open>sortTable\<close>: the new sort column and direction.\<close>

definition toggle_sort :: "column \<Rightarrow> State \<Rightarrow> State" where
  "toggle_sort col st =
     (if sortColumn st = Some col
      then st\<lparr>sortDirection := (if sortDirection st = Asc then Desc else Asc)\<rparr>
      else st\<lparr>sortColumn := Some col, sortDirection := Asc\<rparr>)"

definition sortTable :: "host \<Rightarrow> column \<Rightarrow> sort_type \<Rightarrow> State \<Rightarrow> js_error option \<times> State" where
  "sortTable h col type st =
     (let st1 = toggle_sort col st;
          st2 = st1\<lparr>submissions :=
                       array_sort (compareFn h col type (sortDirection st1)) (submissions st1)\<rparr>;
          st3 = updateSortIndicators st2
      in filterSubmissions h st3)"

subsection \<open>loadDashboardData\<close>

text \<open>\<open>x || 0\<close> printed, for a number property: a missing number and 0 both print as 0.\<close>

definition number_or_zero :: "host \<Rightarrow> rat option \<Rightarrow> string" where
  "number_or_zero h x =
     (case x of None \<Rightarrow> ''0'' | Some v \<Rightarrow> if v = 0 then ''0'' else numberToString h v)"

definition updateStatistics :: "host \<Rightarrow> State \<Rightarrow> State" where
  "updateStatistics h st =
     st\<lparr>statsPanel :=
          [number_or_zero h (total_submissions (statistics st)),
           number_or_zero h (evaluated (statistics st)),
           number_or_zero h (pending (statistics st)),
           (case average_score (statistics st) of
              None \<Rightarrow> ''0'' | Some v \<Rightarrow> if v = 0 then ''0'' else toFixed h v 2),
           (case pass_rate (statistics st) of
              None \<Rightarrow> ''0%'' | Some v \<Rightarrow> if v = 0 then ''0%'' else toFixed h v 1 @ ''%'')]\<rparr>"

definition empty_statistics :: Statistics where
  "empty_statistics =
     \<lparr> total_submissions = None, evaluated = None, pending = None,
       average_score = None, pass_rate = None \<rparr>"

text \<open>
  \<open>r1\<close> is the response to \<open>/api/submissions\<close> and \<open>r2\<close> the response to
  \<open>/api/stats/overview\<close>; the second request is sent only when the first call returned.
  The \<open>catch\<close> block only logs, and \<open>finally\<close> hides the loading block, so the function
  always returns.
\<close>

definition loadDashboardData :: "host \<Rightarrow> response \<Rightarrow> response \<Rightarrow> State \<Rightarrow> State" where
  "loadDashboardData h r1 r2 st =
     (case apiCall h r1 (showLoading True st) of
        (Inl e, st1) \<Rightarrow> showLoading False st1
      | (Inr submissionsData, st1) \<Rightarrow>
          (let st2 = st1\<lparr>submissions :=
                            (case data_submissions submissionsData of
                               Some l \<Rightarrow> l | None \<Rightarrow> [])\<rparr>
           in case apiCall h r2 st2 of
                (Inl e, st3) \<Rightarrow> showLoading False st3
              | (Inr statsData, st3) \<Rightarrow>
                  (let st4 = st3\<lparr>statistics :=
                                    (case data_statistics statsData of
                                       Some s \<Rightarrow> s | None \<Rightarrow> empty_statistics)\<rparr>;
                       st5 = updateStatistics h st4
                   in case renderSubmissions h None st5 of
                        (Some e, st6) \<Rightarrow> showLoading False st6
                      | (None, st6) \<Rightarrow>
                          showLoading False
                            (showNotification ''Data refreshed successfully'' N_success st6))))"

subsection \<open>Monitoring\<close>

definition updateMonitoringUI :: "State \<Rightarrow> State" where
  "updateMonitoringUI st =
     (if monitoringActive st
      then st\<lparr>monitoringStatus := ''Active'',
              startMonitoringBtn_disabled := True, stopMonitoringBtn_disabled := False\<rparr>
      else st\<lparr>monitoringStatus := ''Inactive'',
              startMonitoringBtn_disabled := False, stopMonitoringBtn_disabled := True\<rparr>)"

text \<open>\<open>r\<close> is the response to the request the function awaits.\<close>

definition startMonitoring :: "host \<Rightarrow> response \<Rightarrow> State \<Rightarrow> State" where
  "startMonitoring h r st =
     (case apiCall h r st of
        (Inl e, st1) \<Rightarrow> st1
      | (Inr d, st1) \<Rightarrow>
          showNotification ''Monitoring started successfully'' N_success
            (updateMonitoringUI (st1\<lparr>monitoringActive := True\<rparr>)))"

definition stopMonitoring :: "host \<Rightarrow> response \<Rightarrow> State \<Rightarrow> State" where
  "stopMonitoring h r st =
     (case apiCall h r st of
        (Inl e, st1) \<Rightarrow> st1
      | (Inr d, st1) \<Rightarrow>
          showNotification ''Monitoring stopped'' N_info
            (updateMonitoringUI (st1\<lparr>monitoringActive := False\<rparr>)))"

definition checkMonitoringStatus :: "host \<Rightarrow> response \<Rightarrow> State \<Rightarrow> State" where
  "checkMonitoringStatus h r st =
     (case apiCall h r st of
        (Inl e, st1) \<Rightarrow> st1
      | (Inr d, st1) \<Rightarrow>
          updateMonitoringUI (st1\<lparr>monitoringActive := data_monitoring_active d\<rparr>))"

subsection \<open>generateDetailsHTML\<close>

text \<open>
  The markup is a fixed frame around the texts below, so the model returns the texts:
  the five groups that are always there, and the assessment block when the status is
  \<open>evaluated\<close>. A feedback list that is missing or empty leaves no section
  (\<open>None\<close>).
\<close>

record ScoreItem =
  item_category :: string
  item_score :: string
  item_max_score :: string
  item_percentage :: string

record AssessmentResults =
  result_total_score :: string
  result_grade_class :: string
  result_grade :: string
  score_breakdown :: "ScoreItem list"
  strengths_section :: "string list option"
  improvements_section :: "string list option"
  recommendations_section :: "string list option"

record Details =
  detail_student_id :: string
  detail_student_name :: string
  detail_file_name :: string
  detail_submitted_at :: string
  detail_status_class :: string
  detail_status :: string
  assessment_results :: "AssessmentResults option"

text \<open>The empty object \<open>{}\<close> that stands in for a missing assessment.\<close>

definition empty_assessment :: Assessment where
  "empty_assessment =
     \<lparr> total_score = None, grade = None, breakdown = None, strengths = None,
       improvements = None, recommendations = None \<rparr>"

text \<open>\<open>x?.toFixed(d) || dflt\<close>.\<close>

definition fixed_or :: "host \<Rightarrow> rat option \<Rightarrow> nat \<Rightarrow> string \<Rightarrow> string" where
  "fixed_or h x d dflt = or_else (map_option (\<lambda>v. toFixed h v d) x) dflt"

definition score_item :: "host \<Rightarrow> string \<times> CategoryData \<Rightarrow> ScoreItem" where
  "score_item h entry =
     (case entry of (category, data) \<Rightarrow>
        \<lparr> item_category =
            toUpperCase h (map (\<lambda>c. if c = CHR ''_'' then CHR '' '' else c) category),
          item_score = fixed_or h (score data) 2 ''0'',
          item_max_score = number_or_zero h (max_score data),
          item_percentage = fixed_or h (percentage data) 1 ''0'' \<rparr>)"

text \<open>\<open>list && list.length > 0 ? section : ''\<close>.\<close>

definition feedback_section :: "string list option \<Rightarrow> string list option" where
  "feedback_section items =
     (case items of None \<Rightarrow> None | Some l \<Rightarrow> if l = [] then None else Some l)"

definition generateDetailsHTML :: "host \<Rightarrow> Submission \<Rightarrow> js_error + Details" where
  "generateDetailsHTML h submission =
     (let a = (case assessment submission of Some x \<Rightarrow> x | None \<Rightarrow> empty_assessment);
          bd = (case breakdown a of Some b \<Rightarrow> b | None \<Rightarrow> [])
      in case status submission of
           None \<Rightarrow> Inl TypeError
         | Some st \<Rightarrow>
             Inr \<lparr> detail_student_id = or_else (student_id submission) ''N/A'',
                   detail_student_name = or_else (student_name submission) ''N/A'',
                   detail_file_name = or_else (file_name submission) ''N/A'',
                   detail_submitted_at = formatDate h (submitted_at submission),
                   detail_status_class = ''status-'' @ st,
                   detail_status = toUpperCase h st,
                   assessment_results =
                     (if st = ''evaluated'' then
                        Some \<lparr> result_total_score = fixed_or h (total_score a) 2 ''0'',
                               result_grade_class = ''grade-'' @ getGradeClass h (grade a),
                               result_grade = or_else (grade a) ''-'',
                               score_breakdown = map (score_item h) bd,
                               strengths_section = feedback_section (strengths a),
                               improvements_section = feedback_section (improvements a),
                               recommendations_section =
                                 feedback_section (recommendations a) \<rparr>
                      else None) \<rparr>)"

section \<open>Notions of the specification\<close>

subsection \<open>The filter as the specification words it\<close>

text \<open>
  A field matches when it is there and the search term occurs in it as a substring,
  both taken in lower case; a submission is admitted when the search term is empty or
  one of the three fields matches, and the status filter is empty or equals the status.
\<close>

definition spec_field_matches :: "host \<Rightarrow> string option \<Rightarrow> string \<Rightarrow> bool" where
  "spec_field_matches h field searchTerm =
     (case field of
        None \<Rightarrow> False
      | Some v \<Rightarrow> sublist (toLowerCase h searchTerm) (toLowerCase h v))"

definition spec_admits :: "host \<Rightarrow> string \<Rightarrow> string \<Rightarrow> Submission \<Rightarrow> bool" where
  "spec_admits h searchTerm statusFilterValue s =
     ((searchTerm = [] \<or> spec_field_matches h (student_id s) searchTerm
        \<or> spec_field_matches h (student_name s) searchTerm
        \<or> spec_field_matches h (file_name s) searchTerm) \<and>
      (statusFilterValue = [] \<or> status s = Some statusFilterValue))"

subsection \<open>The message of a failed request as the specification words it\<close>

text \<open>
  The error field if it is present, otherwise the message field if it is present,
  otherwise the generic text with the status.
\<close>

definition spec_failure_message :: "nat \<Rightarrow> Envelope \<Rightarrow> string" where
  "spec_failure_message n d =
     (case data_error d of
        Some e \<Rightarrow> e
      | None \<Rightarrow>
          (case data_message d of
             Some m \<Rightarrow> m
           | None \<Rightarrow> ''Request failed with status '' @ digits n))"

subsection \<open>A failed refresh\<close>

text \<open>
  A refresh fails through its requests when the first call throws, or the first returns
  and the second throws.
\<close>

definition refresh_fails :: "response \<Rightarrow> response \<Rightarrow> bool" where
  "refresh_fails r1 r2 =
     (case apiCall_try r1 of Inl e \<Rightarrow> True | Inr d \<Rightarrow> isl (apiCall_try r2))"

subsection \<open>Positions in the sorted list\<close>

text \<open>
  \<open>all_before P Q xs\<close>: every element of \<open>xs\<close> that satisfies \<open>P\<close> stands before every
  element that satisfies \<open>Q\<close>, that is, no \<open>P\<close> follows a \<open>Q\<close>.
\<close>

fun all_before :: "('a \<Rightarrow> bool) \<Rightarrow> ('a \<Rightarrow> bool) \<Rightarrow> 'a list \<Rightarrow> bool" where
  "all_before P Q [] = True"
| "all_before P Q (x # xs) = ((\<not> Q x \<or> \<not> list_ex P xs) \<and> all_before P Q xs)"

text \<open>A list that is a run of elements satisfying \<open>F\<close> followed by a run of elements that do not.\<close>

definition split_by :: "('a \<Rightarrow> bool) \<Rightarrow> 'a list \<Rightarrow> bool" where
  "split_by F xs = (\<exists>ps qs. xs = ps @ qs \<and> (\<forall>x\<in>set ps. F x) \<and> (\<forall>x\<in>set qs. \<not> F x))"

definition lacks_assessment :: "Submission \<Rightarrow> bool" where
  "lacks_assessment s = (assessment s = None)"

definition has_score :: "Submission \<Rightarrow> bool" where
  "has_score s = (assessment_total_score s \<noteq> None)"

definition zero_scored :: "Submission \<Rightarrow> bool" where
  "zero_scored s = (assessment_total_score s = Some 0)"

text \<open>The data model of the specification: a total score lies between 0 and 100.\<close>

definition valid_scores :: "Submission list \<Rightarrow> bool" where
  "valid_scores xs =
     list_all (\<lambda>s. case assessment_total_score s of
                      None \<Rightarrow> True
                    | Some v \<Rightarrow> 0 \<le> v \<and> v \<le> 100) xs"

text \<open>The number the score sort compares.\<close>

definition score_key :: "Submission \<Rightarrow> rat" where
  "score_key s = (case assessment_total_score s of Some v \<Rightarrow> v | None \<Rightarrow> - 1)"

text \<open>A submission has a grade when its assessment carries one that is not empty.\<close>

definition has_grade :: "Submission \<Rightarrow> bool" where
  "has_grade s = truthy (assessment_grade s)"

definition lacks_grade :: "Submission \<Rightarrow> bool" where
  "lacks_grade s = (\<not> has_grade s)"

text \<open>
  Every grade in the list is ordered strictly before the stand-in \<open>Z\<close> by the host's
  comparison, whichever of the two is the receiver.
\<close>

definition grades_before_sentinel :: "host \<Rightarrow> Submission list \<Rightarrow> bool" where
  "grades_before_sentinel h xs =
     list_all (\<lambda>s. \<not> has_grade s \<or>
                 (case assessment_grade s of
                    None \<Rightarrow> True
                  | Some g \<Rightarrow> localeCompare h g ''Z'' < 0 \<and> 0 < localeCompare h ''Z'' g)) xs"

subsection \<open>Examples\<close>

text \<open>
  A host for the examples. Its \<open>localeCompare\<close> compares two strings letter by letter
  without regard to case, which is how a collation of the Latin alphabet orders the
  single letters the examples use. The examples do not depend on the other functions
  (their strings are ASCII): this host takes every date string as invalid and every
  string as not a number, prints every number as \<open>0\<close>, and leaves text outside ASCII
  as it is.
\<close>

fun lex_compare :: "nat list \<Rightarrow> nat list \<Rightarrow> int" where
  "lex_compare [] [] = 0"
| "lex_compare [] (y # ys) = - 1"
| "lex_compare (x # xs) [] = 1"
| "lex_compare (x # xs) (y # ys) =
     (if x < y then - 1 else if y < x then 1 else lex_compare xs ys)"

definition sample_host :: host where
  "sample_host =
     \<lparr> localeCompare =
         (\<lambda>a b. lex_compare (map (of_char \<circ> toLowerCase_char) a)
                              (map (of_char \<circ> toLowerCase_char) b)),
       parseDate = (\<lambda>s. None), stringToNumber = (\<lambda>s. None),
       toFixed = (\<lambda>v d. ''0''), numberToString = (\<lambda>v. ''0''),
       dateToLocaleString = (\<lambda>s. s), typeErrorMessage = ''TypeError'',
       unicodeToLowerCase = (\<lambda>s. s), unicodeToUpperCase = (\<lambda>s. s),
       unicodeCharAt0 = (\<lambda>s. take 1 s) \<rparr>"

text \<open>An envelope that reports success and carries nothing else.\<close>

definition empty_envelope :: Envelope where
  "empty_envelope =
     \<lparr> data_success = True, data_error = None, data_message = None,
       data_submissions = None, data_statistics = None, data_monitoring_active = False,
       data_submission = None, data_download_url = None \<rparr>"

text \<open>A submission as the service first records it, and the state the script starts in.\<close>

definition new_submission :: "string \<Rightarrow> string \<Rightarrow> Submission" where
  "new_submission i st =
     \<lparr> oid = i, student_id = None, student_name = None, file_name = None,
       submitted_at = None, status = Some st, assessment = None \<rparr>"

definition initial_state :: State where
  "initial_state =
     \<lparr> submissions = [], statistics = empty_statistics, monitoringActive = False,
       sortColumn = None, sortDirection = Asc, searchInput = [], statusFilter = [],
       submissionsBody = [], submissionCount = [], emptyState = False,
       loadingIndicator = False, statsPanel = [], monitoringStatus = [],
       startMonitoringBtn_disabled = False, stopMonitoringBtn_disabled = False,
       sortIndicator = None, notifications = [] \<rparr>"

text \<open>An evaluated submission with a total score, and one with a grade as well.\<close>

definition scored :: "string \<Rightarrow> rat \<Rightarrow> Submission" where
  "scored i v =
     (new_submission i ''evaluated'')
       \<lparr>assessment := Some (empty_assessment\<lparr>total_score := Some v\<rparr>)\<rparr>"

definition graded :: "string \<Rightarrow> string \<Rightarrow> Submission" where
  "graded i g =
     (new_submission i ''evaluated'')
       \<lparr>assessment := Some (empty_assessment\<lparr>total_score := Some 50, grade := Some g\<rparr>)\<rparr>"

section \<open>Properties\<close>

lemmas sample_defs =
  new_submission_def scored_def graded_def empty_assessment_def initial_state_def
  sample_host_def empty_envelope_def

subsection \<open>Filtering\<close>

lemma str_includes_sublist: "str_includes s t \<longleftrightarrow> sublist t s"
  by (induction s) (auto simp: sublist_Cons_right)

lemma toLowerCase_empty: "toLowerCase h [] = []"
  by (simp add: toLowerCase_def is_ascii_def)

lemma field_includes_spec:
  "field_includes h f (toLowerCase h t) \<longleftrightarrow> truthy f \<and> spec_field_matches h f t"
  by (cases f) (auto simp: field_includes_def spec_field_matches_def str_includes_sublist)

lemma spec_field_matches_empty: "truthy f \<Longrightarrow> spec_field_matches h f []"
  by (cases f) (auto simp: spec_field_matches_def toLowerCase_empty)

text \<open>
  On a submission that has at least one of \<open>student_id\<close>, \<open>student_name\<close>,
  \<open>file_name\<close> present and not empty, the callback is the filter of the
  specification (lower-casing a term that is not empty gives a string that is not
  empty).
\<close>

lemma filter_callback_spec_admits:
  assumes field: "truthy (student_id s) \<or> truthy (student_name s) \<or> truthy (file_name s)"
    and lower: "toLowerCase h t = [] \<Longrightarrow> t = []"
  shows "filter_callback h t sf s \<longleftrightarrow> spec_admits h t sf s"
proof (cases "t = []")
  case True
  with field show ?thesis
    by (auto simp: filter_callback_def matchesSearch_def matchesStatus_def spec_admits_def
        field_includes_spec spec_field_matches_empty)
next
  case False
  with lower have nonempty: "toLowerCase h t \<noteq> []" by blast
  have "truthy f \<and> spec_field_matches h f t \<longleftrightarrow> spec_field_matches h f t" for f
  proof (cases f)
    case None
    then show ?thesis by (simp add: spec_field_matches_def)
  next
    case (Some v)
    with nonempty show ?thesis
      by (cases "v = []") (auto simp: spec_field_matches_def toLowerCase_empty)
  qed
  with False show ?thesis
    by (simp add: filter_callback_def matchesSearch_def matchesStatus_def spec_admits_def
        field_includes_spec)
qed

text \<open>
  The term \<open>smith\<close>, in either case, matches the name \<open>John Smith\<close> and does not match
  \<open>Jane Doe\<close>.
\<close>

lemma filter_callback_smith:
  "filter_callback h ''smith'' []
     ((new_submission ''1'' ''pending'')\<lparr>student_name := Some ''John Smith''\<rparr>)"
  "filter_callback h ''SMITH'' []
     ((new_submission ''1'' ''pending'')\<lparr>student_name := Some ''John Smith''\<rparr>)"
  "\<not> filter_callback h ''smith'' []
     ((new_submission ''2'' ''pending'')\<lparr>student_name := Some ''Jane Doe''\<rparr>)"
  by (simp_all add: filter_callback_def matchesSearch_def matchesStatus_def
      field_includes_def new_submission_def toLowerCase_def is_ascii_def toLowerCase_char_def)

text \<open>
  C2 holds of the specification and not of the code. Take the store of the
  specification's example, A pending and B evaluated with score 88, neither with a
  student id, a student name or a file name. With an empty search term the
  specification admits both, and B under the status filter \<open>evaluated\<close>. The callback
  rejects both: each disjunct of \<open>matchesSearch\<close> is guarded by the field itself, so a
  submission without the three fields matches no search term, not even the empty one.
  \<open>renderSubmissions()\<close>, called without a filter after a refresh, shows the two rows;
  \<open>filterSubmissions\<close> with empty inputs, as \<open>sortTable\<close> calls it, shows none.
\<close>

theorem filter_drops_submissions_without_fields:
  "spec_admits sample_host [] [] (new_submission ''A'' ''pending'') \<and>
   \<not> filter_callback sample_host [] [] (new_submission ''A'' ''pending'') \<and>
   spec_admits sample_host [] ''evaluated'' (scored ''B'' 88) \<and>
   \<not> filter_callback sample_host [] ''evaluated'' (scored ''B'' 88) \<and>
   filtered sample_host
     (initial_state\<lparr>submissions := [new_submission ''A'' ''pending'', scored ''B'' 88],
        statusFilter := ''evaluated''\<rparr>) = [] \<and>
   map details_button
     (submissionsBody (snd (renderSubmissions sample_host None
        (initial_state\<lparr>submissions := [new_submission ''A'' ''pending'', scored ''B'' 88]\<rparr>))))
     = [''A'', ''B''] \<and>
   submissionsBody (snd (filterSubmissions sample_host
        (initial_state\<lparr>submissions := [new_submission ''A'' ''pending'', scored ''B'' 88]\<rparr>)))
     = []"
  by (simp add: spec_admits_def filter_callback_def matchesSearch_def matchesStatus_def
      field_includes_def filtered_def filterSubmissions_def renderSubmissions_def
      render_row_def score_cell_def sample_defs)

subsection \<open>What rendering and sorting leave alone\<close>

lemma renderSubmissions_frame:
  "submissions (snd (renderSubmissions h f st)) = submissions st"
  "statistics (snd (renderSubmissions h f st)) = statistics st"
  "searchInput (snd (renderSubmissions h f st)) = searchInput st"
  "statusFilter (snd (renderSubmissions h f st)) = statusFilter st"
  "sortColumn (snd (renderSubmissions h f st)) = sortColumn st"
  "sortDirection (snd (renderSubmissions h f st)) = sortDirection st"
  "notifications (snd (renderSubmissions h f st)) = notifications st"
  by (simp_all add: renderSubmissions_def Let_def split: sum.splits)

lemma sortTable_submissions:
  "submissions (snd (sortTable h col type st)) =
     array_sort (compareFn h col type (sortDirection (toggle_sort col st))) (submissions st)"
  by (simp add: sortTable_def Let_def filterSubmissions_def renderSubmissions_frame
      updateSortIndicators_def toggle_sort_def)

lemma sortTable_sort_state:
  "sortColumn (snd (sortTable h col type st)) = sortColumn (toggle_sort col st)"
  "sortDirection (snd (sortTable h col type st)) = sortDirection (toggle_sort col st)"
  by (simp_all add: sortTable_def Let_def filterSubmissions_def renderSubmissions_frame
      updateSortIndicators_def)

lemma sortTable_inputs:
  "searchInput (snd (sortTable h col type st)) = searchInput st"
  "statusFilter (snd (sortTable h col type st)) = statusFilter st"
  by (simp_all add: sortTable_def Let_def filterSubmissions_def renderSubmissions_frame
      updateSortIndicators_def toggle_sort_def)

subsection \<open>The sort state\<close>

text \<open>
  C5: after \<open>sortTable\<close> with a key, that key is the current sort column; the direction
  is the opposite of the previous one when the key was already the current column, and
  ascending when it was not (another column, or none yet).
\<close>

theorem sortTable_toggles_direction:
  "sortColumn (snd (sortTable h col type st)) = Some col \<and>
   sortDirection (snd (sortTable h col type st)) =
     (if sortColumn st = Some col
      then (if sortDirection st = Asc then Desc else Asc)
      else Asc)"
  by (simp add: sortTable_sort_state toggle_sort_def)

subsection \<open>The sort is a permutation\<close>

lemma sort_insert_mset: "mset (sort_insert cmp x ys) = add_mset x (mset ys)"
  by (induction ys) auto

lemma array_sort_mset: "mset (array_sort cmp xs) = mset xs"
  by (induction xs) (auto simp: array_sort_def sort_insert_mset)

lemma array_sort_set: "set (array_sort cmp xs) = set xs"
  using array_sort_mset [of cmp xs] by (metis set_mset_mset)








subsection \<open>Failed requests\<close>

text \<open>
  C8, as stated, fails: for a response with status 500 whose envelope has an empty
  \<open>error\<close> string and the \<open>message\<close> \<open>Disk full\<close>, the error field is present, so the
  stated priority gives the empty message, while \<open>apiCall\<close> throws \<open>Disk full\<close>: the
  operator \<open>||\<close> passes over a present but empty string.
\<close>

theorem failure_message_empty_error_counterexample:
  "fst (apiCall sample_host
          (Json 500 (empty_envelope\<lparr>data_success := False, data_error := Some [],
                                   data_message := Some ''Disk full''\<rparr>)) initial_state)
     = Inl (JsError ''Disk full'') \<and>
   spec_failure_message 500
     (empty_envelope\<lparr>data_success := False, data_error := Some [],
                     data_message := Some ''Disk full''\<rparr>) = []"
  by (simp add: apiCall_def failure_message_def spec_failure_message_def empty_envelope_def
      response_ok_def)

text \<open>
  C8, amended: for every JSON response whose status is outside 200 to 299 or whose
  envelope does not report success, \<open>apiCall\<close> throws an error whose message is the
  envelope's error field if that is present and not empty, otherwise its message field
  if that is present and not empty, otherwise \<open>Request failed with status N\<close>. When
  neither field is an empty string this is the priority by presence.
\<close>

theorem apiCall_failure_message:
  assumes "\<not> response_ok n \<or> \<not> data_success d"
  shows "fst (apiCall h (Json n d) st) =
           Inl (JsError
             (if truthy (data_error d) then the (data_error d)
              else if truthy (data_message d) then the (data_message d)
              else ''Request failed with status '' @ digits n)) \<and>
         (data_error d \<noteq> Some [] \<and> data_message d \<noteq> Some [] \<longrightarrow>
            fst (apiCall h (Json n d) st) = Inl (JsError (spec_failure_message n d)))"
  using assms
  by (cases "data_error d"; cases "data_message d")
     (auto simp: apiCall_def failure_message_def spec_failure_message_def)

text \<open>
  The three levels of the priority: status 404 with neither field, a failure flag with
  both fields, status 500 with the message field only.
\<close>

theorem apiCall_failure_message_witness:
  "\<not> response_ok 404 \<and>
   fst (apiCall sample_host (Json 404 (empty_envelope\<lparr>data_success := False\<rparr>))
          initial_state)
     = Inl (JsError ''Request failed with status 404'') \<and>
   fst (apiCall sample_host
          (Json 200 (empty_envelope\<lparr>data_success := False,
                       data_error := Some ''No such student'',
                       data_message := Some ''Lookup failed''\<rparr>)) initial_state)
     = Inl (JsError ''No such student'') \<and>
   fst (apiCall sample_host
          (Json 500 (empty_envelope\<lparr>data_message := Some ''Lookup failed''\<rparr>)) initial_state)
     = Inl (JsError ''Lookup failed'')"
  using
    apiCall_failure_message
      [of 404 "empty_envelope\<lparr>data_success := False\<rparr>" sample_host initial_state]
    apiCall_failure_message
      [of 200 "empty_envelope\<lparr>data_success := False, data_error := Some ''No such student'',
                 data_message := Some ''Lookup failed''\<rparr>" sample_host initial_state]
    apiCall_failure_message
      [of 500 "empty_envelope\<lparr>data_message := Some ''Lookup failed''\<rparr>" sample_host
          initial_state]
  by (simp add: response_ok_def empty_envelope_def)

subsection \<open>A failed refresh\<close>

text \<open>
  C1, as stated, fails: when \<open>/api/submissions\<close> answers with one new submission and
  \<open>/api/stats/overview\<close> cannot be reached, the refresh fails, yet the store holds the
  new list in place of the previous one, beside the previous statistics. The variable
  \<open>submissions\<close> is assigned between the two requests.
\<close>

theorem failed_refresh_replaces_submissions_counterexample:
  "refresh_fails
     (Json 200 (empty_envelope\<lparr>data_submissions := Some [new_submission ''B'' ''pending'']\<rparr>))
     (FetchRejected ''Failed to fetch'') \<and>
   submissions (initial_state\<lparr>submissions := [new_submission ''A'' ''pending'']\<rparr>)
     = [new_submission ''A'' ''pending''] \<and>
   submissions
     (loadDashboardData sample_host
        (Json 200 (empty_envelope\<lparr>data_submissions := Some [new_submission ''B'' ''pending'']\<rparr>))
        (FetchRejected ''Failed to fetch'')
        (initial_state\<lparr>submissions := [new_submission ''A'' ''pending'']\<rparr>))
     = [new_submission ''B'' ''pending''] \<and>
   statistics
     (loadDashboardData sample_host
        (Json 200 (empty_envelope\<lparr>data_submissions := Some [new_submission ''B'' ''pending'']\<rparr>))
        (FetchRejected ''Failed to fetch'')
        (initial_state\<lparr>submissions := [new_submission ''A'' ''pending'']\<rparr>))
     = statistics initial_state"
  by (simp add: refresh_fails_def loadDashboardData_def apiCall_def empty_envelope_def
      response_ok_def showLoading_def showNotification_def initial_state_def)

text \<open>
  C1, amended: in every refresh in which a request fails, the table body, the count line
  and the empty-state block stay as they were, exactly one notification is posted and it
  is of error severity, and the statistics in the store stay as they were. The
  submission list in the store is replaced as a whole or not at all: it is the previous
  list when the submissions request failed, and the list just fetched when that request
  succeeded and the statistics request failed.
\<close>

theorem failed_refresh:
  assumes "refresh_fails r1 r2"
  shows "submissionsBody (loadDashboardData h r1 r2 st) = submissionsBody st \<and>
         submissionCount (loadDashboardData h r1 r2 st) = submissionCount st \<and>
         emptyState (loadDashboardData h r1 r2 st) = emptyState st \<and>
         (\<exists>m. notifications (loadDashboardData h r1 r2 st) =
                 notifications st @ [(N_error, m)]) \<and>
         statistics (loadDashboardData h r1 r2 st) = statistics st \<and>
         submissions (loadDashboardData h r1 r2 st) =
           (case apiCall_try r1 of
              Inl e \<Rightarrow> submissions st
            | Inr d \<Rightarrow> (case data_submissions d of Some l \<Rightarrow> l | None \<Rightarrow> []))"
  using assms
  by (cases "apiCall_try r1"; cases "apiCall_try r2")
     (simp_all add: refresh_fails_def loadDashboardData_def apiCall_def showLoading_def
        showNotification_def)

text \<open>The submissions request cannot be sent: the store keeps its list.\<close>

theorem failed_refresh_witness:
  "refresh_fails (FetchRejected ''Failed to fetch'') (Json 200 empty_envelope) \<and>
   submissions
     (loadDashboardData sample_host (FetchRejected ''Failed to fetch'')
        (Json 200 empty_envelope)
        (initial_state\<lparr>submissions := [new_submission ''A'' ''pending'']\<rparr>))
     = [new_submission ''A'' ''pending''] \<and>
   notifications
     (loadDashboardData sample_host (FetchRejected ''Failed to fetch'')
        (Json 200 empty_envelope)
        (initial_state\<lparr>submissions := [new_submission ''A'' ''pending'']\<rparr>))
     = [(N_error, ''Error: Failed to fetch'')]"
  using failed_refresh
    [of "FetchRejected ''Failed to fetch''" "Json 200 empty_envelope" sample_host
        "initial_state\<lparr>submissions := [new_submission ''A'' ''pending'']\<rparr>"]
  by (simp add: refresh_fails_def loadDashboardData_def apiCall_def showLoading_def
      showNotification_def error_message_def initial_state_def)

subsection \<open>Monitoring\<close>

text \<open>
  C7: when the request of \<open>startMonitoring\<close> fails, \<open>monitoringActive\<close> and the
  monitoring panel stay as they were and exactly one notification is posted, of error
  severity; when it succeeds, \<open>monitoringActive\<close> is true afterwards and the one
  notification posted is the success message. So the flag is never set before the
  request has succeeded.
\<close>

theorem startMonitoring_outcome:
  "(isl (apiCall_try r) \<longrightarrow>
      monitoringActive (startMonitoring h r st) = monitoringActive st \<and>
      monitoringStatus (startMonitoring h r st) = monitoringStatus st \<and>
      (\<exists>m. notifications (startMonitoring h r st) = notifications st @ [(N_error, m)])) \<and>
   (\<not> isl (apiCall_try r) \<longrightarrow>
      monitoringActive (startMonitoring h r st) \<and>
      notifications (startMonitoring h r st) =
        notifications st @ [(N_success, ''Monitoring started successfully'')])"
  by (cases "apiCall_try r")
     (simp_all add: startMonitoring_def apiCall_def showNotification_def updateMonitoringUI_def)

text \<open>A network error while inactive, and a successful start.\<close>

theorem startMonitoring_outcome_witness:
  "isl (apiCall_try (FetchRejected ''Failed to fetch'')) \<and>
   \<not> monitoringActive initial_state \<and>
   \<not> monitoringActive
       (startMonitoring sample_host (FetchRejected ''Failed to fetch'') initial_state) \<and>
   notifications (startMonitoring sample_host (FetchRejected ''Failed to fetch'') initial_state)
     = [(N_error, ''Error: Failed to fetch'')] \<and>
   \<not> isl (apiCall_try (Json 200 empty_envelope)) \<and>
   monitoringActive (startMonitoring sample_host (Json 200 empty_envelope) initial_state) \<and>
   notifications (startMonitoring sample_host (Json 200 empty_envelope) initial_state)
     = [(N_success, ''Monitoring started successfully'')]"
  using startMonitoring_outcome [of "FetchRejected ''Failed to fetch''" sample_host initial_state]
    startMonitoring_outcome [of "Json 200 empty_envelope" sample_host initial_state]
  by (simp add: initial_state_def empty_envelope_def response_ok_def startMonitoring_def
      apiCall_def showNotification_def error_message_def)

subsection \<open>The detail view\<close>

text \<open>
  C9: for a submission whose status is \<open>evaluated\<close> and whose assessment is missing,
  \<open>generateDetailsHTML\<close> returns (it does not throw); the assessment block shows the
  score \<open>0\<close>, the grade placeholder \<open>-\<close> with the class of a missing grade, an empty
  breakdown, and none of the strengths, improvements and recommendations sections.
\<close>

theorem generateDetailsHTML_without_assessment:
  assumes "status s = Some ''evaluated''" and "assessment s = None"
  shows "generateDetailsHTML h s =
           Inr \<lparr> detail_student_id = or_else (student_id s) ''N/A'',
                 detail_student_name = or_else (student_name s) ''N/A'',
                 detail_file_name = or_else (file_name s) ''N/A'',
                 detail_submitted_at = formatDate h (submitted_at s),
                 detail_status_class = ''status-evaluated'',
                 detail_status = ''EVALUATED'',
                 assessment_results =
                   Some \<lparr> result_total_score = ''0'', result_grade_class = ''grade-f'',
                          result_grade = ''-'', score_breakdown = [],
                          strengths_section = None, improvements_section = None,
                          recommendations_section = None \<rparr> \<rparr>"
  using assms
  by (simp add: generateDetailsHTML_def empty_assessment_def fixed_or_def getGradeClass_def
      feedback_section_def toUpperCase_def is_ascii_def toUpperCase_char_def)

theorem generateDetailsHTML_without_assessment_witness:
  "status (new_submission ''B'' ''evaluated'') = Some ''evaluated'' \<and>
   assessment (new_submission ''B'' ''evaluated'') = None \<and>
   generateDetailsHTML sample_host (new_submission ''B'' ''evaluated'') =
     Inr \<lparr> detail_student_id = ''N/A'', detail_student_name = ''N/A'',
           detail_file_name = ''N/A'', detail_submitted_at = ''N/A'',
           detail_status_class = ''status-evaluated'', detail_status = ''EVALUATED'',
           assessment_results =
             Some \<lparr> result_total_score = ''0'', result_grade_class = ''grade-f'',
                    result_grade = ''-'', score_breakdown = [],
                    strengths_section = None, improvements_section = None,
                    recommendations_section = None \<rparr> \<rparr>"
  using generateDetailsHTML_without_assessment [of "new_submission ''B'' ''evaluated''" sample_host]
  by (simp add: new_submission_def formatDate_def)

subsection \<open>Where the sort puts two kinds of submissions\<close>

text \<open>\<open>all_before\<close> by positions: no position holding a \<open>P\<close> has a \<open>Q\<close> at a position before it.\<close>

lemma all_before_index:
  "all_before P Q xs \<longleftrightarrow>
     (\<forall>i j. j < i \<and> i < length xs \<and> P (xs ! i) \<longrightarrow> \<not> Q (xs ! j))"
proof (induction xs)
  case Nil
  then show ?case by simp
next
  case (Cons x xs)
  show ?case
  proof
    assume before: "all_before P Q (x # xs)"
    show "\<forall>i j. j < i \<and> i < length (x # xs) \<and> P ((x # xs) ! i) \<longrightarrow> \<not> Q ((x # xs) ! j)"
    proof (intro allI impI)
      fix i j
      assume ij: "j < i \<and> i < length (x # xs) \<and> P ((x # xs) ! i)"
      then obtain k where k: "i = Suc k" by (cases i) auto
      show "\<not> Q ((x # xs) ! j)"
      proof (cases j)
        case 0
        from ij k have "P (xs ! k)" "k < length xs" by auto
        then have "list_ex P xs" by (auto simp: list_ex_iff)
        with before 0 show ?thesis by auto
      next
        case (Suc l)
        with ij k before Cons.IH show ?thesis by auto
      qed
    qed
  next
    assume pos: "\<forall>i j. j < i \<and> i < length (x # xs) \<and> P ((x # xs) ! i) \<longrightarrow> \<not> Q ((x # xs) ! j)"
    have head: "\<not> Q x \<or> \<not> list_ex P xs"
    proof (rule ccontr)
      assume "\<not> (\<not> Q x \<or> \<not> list_ex P xs)"
      then have q: "Q x" and "list_ex P xs" by auto
      then obtain k where "k < length xs" "P (xs ! k)"
        by (auto simp: list_ex_iff in_set_conv_nth)
      with pos [rule_format, of 0 "Suc k"] q show False by auto
    qed
    have tail: "all_before P Q xs"
      unfolding Cons.IH
    proof (intro allI impI)
      fix i j
      assume "j < i \<and> i < length xs \<and> P (xs ! i)"
      with pos [rule_format, of "Suc j" "Suc i"] show "\<not> Q (xs ! j)" by auto
    qed
    from head tail show "all_before P Q (x # xs)" by simp
  qed
qed

lemma all_before_none: "\<forall>x\<in>set xs. \<not> P x \<Longrightarrow> all_before P Q xs"
  by (induction xs) (auto simp: list_ex_iff)

lemma all_before_append:
  "\<forall>x\<in>set ps. \<not> Q x \<Longrightarrow> \<forall>x\<in>set qs. \<not> P x \<Longrightarrow> all_before P Q (ps @ qs)"
  by (induction ps) (auto simp: all_before_none)

lemma all_before_cong:
  "all_before P Q xs \<Longrightarrow> (\<And>x. x \<in> set xs \<Longrightarrow> P' x \<Longrightarrow> P x) \<Longrightarrow>
   (\<And>x. x \<in> set xs \<Longrightarrow> Q' x \<Longrightarrow> Q x) \<Longrightarrow> all_before P' Q' xs"
  by (induction xs) (auto simp: list_ex_iff)

lemma split_by_all_before:
  assumes "split_by F xs" and "\<And>x. P x \<Longrightarrow> F x" and "\<And>x. Q x \<Longrightarrow> \<not> F x"
  shows "all_before P Q xs"
proof -
  from assms(1) obtain ps qs
    where "xs = ps @ qs" "\<forall>x\<in>set ps. F x" "\<forall>x\<in>set qs. \<not> F x"
    unfolding split_by_def by blast
  with assms(2,3) show ?thesis by (auto intro!: all_before_append)
qed

lemma sort_insert_set: "set (sort_insert cmp x ys) = insert x (set ys)"
  by (induction ys) auto

text \<open>
  Inserting into a split list keeps it split, when the comparator never sends an \<open>F\<close>
  behind a non-\<open>F\<close> and always sends a non-\<open>F\<close> behind an \<open>F\<close>.
\<close>

lemma sort_insert_keeps_split:
  assumes "split_by F ys"
    and "F x \<Longrightarrow> \<forall>y\<in>set ys. \<not> F y \<longrightarrow> \<not> positive (cmp x y)"
    and "\<not> F x \<Longrightarrow> \<forall>y\<in>set ys. F y \<longrightarrow> positive (cmp x y)"
  shows "split_by F (sort_insert cmp x ys)"
proof -
  from assms(1) obtain ps qs
    where ys: "ys = ps @ qs" and ps: "\<forall>y\<in>set ps. F y" and qs: "\<forall>y\<in>set qs. \<not> F y"
    unfolding split_by_def by blast
  show ?thesis
    using ps assms(2,3) unfolding ys
  proof (induction ps)
    case Nil
    show ?case
    proof (cases "F x")
      case True
      with Nil qs have "sort_insert cmp x qs = x # qs" by (cases qs) auto
      with True qs show ?thesis
        unfolding split_by_def by (intro exI [of _ "[x]"] exI [of _ qs]) auto
    next
      case False
      with qs show ?thesis
        unfolding split_by_def
        by (intro exI [of _ "[]"] exI [of _ "sort_insert cmp x qs"])
           (auto simp: sort_insert_set)
    qed
  next
    case (Cons p ps)
    have rest: "split_by F (sort_insert cmp x (ps @ qs))"
      using Cons by auto
    show ?case
    proof (cases "positive (cmp x p)")
      case True
      from rest obtain ps' qs'
        where "sort_insert cmp x (ps @ qs) = ps' @ qs'" "\<forall>y\<in>set ps'. F y"
          "\<forall>y\<in>set qs'. \<not> F y"
        unfolding split_by_def by blast
      with True Cons.prems(1) show ?thesis
        unfolding split_by_def by (intro exI [of _ "p # ps'"] exI [of _ qs']) auto
    next
      case False
      with Cons.prems have "F x" by auto
      with False Cons.prems(1) qs show ?thesis
        unfolding split_by_def by (intro exI [of _ "x # p # ps"] exI [of _ qs]) auto
    qed
  qed
qed

lemma array_sort_split:
  assumes "\<forall>x\<in>set xs. \<forall>y\<in>set xs.
             F x \<and> \<not> F y \<longrightarrow> \<not> positive (cmp x y) \<and> positive (cmp y x)"
  shows "split_by F (array_sort cmp xs)"
  using assms
proof (induction xs)
  case Nil
  show ?case by (simp add: array_sort_def split_by_def)
next
  case (Cons x xs)
  have sorted_rest: "split_by F (array_sort cmp xs)"
    using Cons by auto
  have "split_by F (sort_insert cmp x (array_sort cmp xs))"
    by (rule sort_insert_keeps_split [OF sorted_rest])
       (use Cons.prems in \<open>auto simp: array_sort_set\<close>)
  then show ?case by (simp add: array_sort_def)
qed

subsection \<open>Sorting by score\<close>

lemma compareFn_score:
  "compareFn h Col_score T_number dir a b =
     Some (if dir = Asc then score_key a - score_key b else score_key b - score_key a)"
  by (simp add: compareFn_def sort_value_def score_key_def)

lemma score_sort_asc_split:
  "split_by (\<lambda>s. score_key s < t) (array_sort (compareFn h Col_score T_number Asc) xs)"
  by (rule array_sort_split) (auto simp: compareFn_score)

lemma score_sort_desc_split:
  "split_by (\<lambda>s. t \<le> score_key s) (array_sort (compareFn h Col_score T_number Desc) xs)"
  by (rule array_sort_split) (auto simp: compareFn_score)

lemma valid_scores_key:
  "valid_scores xs \<Longrightarrow> s \<in> set xs \<Longrightarrow> has_score s \<Longrightarrow> 0 \<le> score_key s"
  by (auto simp: valid_scores_def list_all_iff has_score_def score_key_def
      split: option.splits)

lemma lacks_key: "lacks_assessment s \<Longrightarrow> score_key s = - 1"
  by (simp add: lacks_assessment_def score_key_def assessment_total_score_def)

lemma zero_key: "zero_scored s \<Longrightarrow> score_key s = 0"
  by (simp add: zero_scored_def score_key_def)

text \<open>The score and grade headers call \<open>sortTable\<close> with these keys and types.\<close>

lemma sortableColumns_score_grade:
  "map_of sortableColumns Col_score = Some T_number"
  "map_of sortableColumns Col_grade = Some T_string"
  by (simp_all add: sortableColumns_def)

lemmas sort_eval =
  sortTable_submissions sortTable_sort_state toggle_sort_def array_sort_def compareFn_def
  sort_value_def assessment_total_score_def assessment_grade_def

text \<open>
  C3: take a store whose total scores are in the range of the data model, 0 to 100, and
  sort it by score. A submission without assessment is compared as \<open>-1\<close>, below every
  score. When the direction after the call is ascending, every submission without
  assessment stands before every submission with a total score; when it is descending,
  after every one of them.
\<close>

theorem score_sort_missing_lowest:
  assumes "valid_scores (submissions st)"
  shows "(sortDirection (snd (sortTable h Col_score T_number st)) = Asc \<longrightarrow>
            all_before lacks_assessment has_score
              (submissions (snd (sortTable h Col_score T_number st)))) \<and>
         (sortDirection (snd (sortTable h Col_score T_number st)) = Desc \<longrightarrow>
            all_before has_score lacks_assessment
              (submissions (snd (sortTable h Col_score T_number st))))"
proof (intro conjI impI)
  let ?st' = "snd (sortTable h Col_score T_number st)"
  have key: "\<forall>s\<in>set (submissions ?st'). has_score s \<longrightarrow> 0 \<le> score_key s"
    using valid_scores_key [OF assms] by (simp add: sortTable_submissions array_sort_set)
  {
    assume "sortDirection ?st' = Asc"
    then have "submissions ?st' =
        array_sort (compareFn h Col_score T_number Asc) (submissions st)"
      by (simp add: sortTable_submissions sortTable_sort_state)
    then have "split_by (\<lambda>s. score_key s < 0) (submissions ?st')"
      by (simp add: score_sort_asc_split)
    then have "all_before (\<lambda>s. score_key s < 0) (\<lambda>s. \<not> score_key s < 0) (submissions ?st')"
      by (rule split_by_all_before) auto
    then show "all_before lacks_assessment has_score (submissions ?st')"
      by (rule all_before_cong) (use key in \<open>force simp: lacks_key\<close>)+
  }
  {
    assume "sortDirection ?st' = Desc"
    then have "submissions ?st' =
        array_sort (compareFn h Col_score T_number Desc) (submissions st)"
      by (simp add: sortTable_submissions sortTable_sort_state)
    then have "split_by (\<lambda>s. 0 \<le> score_key s) (submissions ?st')"
      by (simp add: score_sort_desc_split)
    then have "all_before (\<lambda>s. 0 \<le> score_key s) (\<lambda>s. \<not> 0 \<le> score_key s) (submissions ?st')"
      by (rule split_by_all_before) auto
    then show "all_before has_score lacks_assessment (submissions ?st')"
      by (rule all_before_cong) (use key in \<open>force simp: lacks_key\<close>)+
  }
qed

text \<open>
  The store of the specification's example, A pending and B evaluated with score 88:
  the first sort by score is ascending and gives A, B; the next is descending and
  gives B, A.
\<close>

theorem score_sort_missing_lowest_witness:
  "valid_scores [new_submission ''A'' ''pending'', scored ''B'' 88] \<and>
   sortDirection (snd (sortTable sample_host Col_score T_number
     (initial_state\<lparr>submissions := [new_submission ''A'' ''pending'', scored ''B'' 88]\<rparr>)))
     = Asc \<and>
   submissions (snd (sortTable sample_host Col_score T_number
     (initial_state\<lparr>submissions := [new_submission ''A'' ''pending'', scored ''B'' 88]\<rparr>)))
     = [new_submission ''A'' ''pending'', scored ''B'' 88] \<and>
   all_before lacks_assessment has_score
     (submissions (snd (sortTable sample_host Col_score T_number
       (initial_state\<lparr>submissions := [new_submission ''A'' ''pending'', scored ''B'' 88]\<rparr>)))) \<and>
   sortDirection (snd (sortTable sample_host Col_score T_number
     (initial_state\<lparr>submissions := [new_submission ''A'' ''pending'', scored ''B'' 88],
        sortColumn := Some Col_score\<rparr>)))
     = Desc \<and>
   submissions (snd (sortTable sample_host Col_score T_number
     (initial_state\<lparr>submissions := [new_submission ''A'' ''pending'', scored ''B'' 88],
        sortColumn := Some Col_score\<rparr>)))
     = [scored ''B'' 88, new_submission ''A'' ''pending''] \<and>
   all_before has_score lacks_assessment
     (submissions (snd (sortTable sample_host Col_score T_number
       (initial_state\<lparr>submissions := [new_submission ''A'' ''pending'', scored ''B'' 88],
          sortColumn := Some Col_score\<rparr>))))"
  using
    score_sort_missing_lowest
      [of "initial_state\<lparr>submissions := [new_submission ''A'' ''pending'', scored ''B'' 88]\<rparr>"
          sample_host]
    score_sort_missing_lowest
      [of "initial_state\<lparr>submissions := [new_submission ''A'' ''pending'', scored ''B'' 88],
             sortColumn := Some Col_score\<rparr>" sample_host]
  by (simp add: sort_eval sample_defs valid_scores_def)

text \<open>
  C10: the value extracted for the score sort is 0 for a total score of 0 and \<open>-1\<close> for
  a missing assessment; the ascending comparator gives \<open>-1\<close> for the pair (missing,
  zero) and 1 for the pair (zero, missing), never a tie; and after an ascending sort
  by score every submission without assessment stands before every submission whose
  total score is 0.
\<close>

theorem score_sort_zero_not_missing:
  assumes "lacks_assessment a" and "zero_scored b"
  shows "sort_value Col_score b = Num 0 \<and>
         sort_value Col_score a = Num (- 1) \<and>
         compareFn h Col_score T_number Asc a b = Some (- 1) \<and>
         compareFn h Col_score T_number Asc b a = Some 1 \<and>
         (sortDirection (snd (sortTable h Col_score T_number st)) = Asc \<longrightarrow>
            all_before lacks_assessment zero_scored
              (submissions (snd (sortTable h Col_score T_number st))))"
proof -
  let ?st' = "snd (sortTable h Col_score T_number st)"
  have vals: "sort_value Col_score b = Num 0" "sort_value Col_score a = Num (- 1)"
    using assms
    by (simp_all add: sort_value_def zero_scored_def lacks_assessment_def
        assessment_total_score_def)
  from vals have cmp: "compareFn h Col_score T_number Asc a b = Some (- 1)"
    "compareFn h Col_score T_number Asc b a = Some 1"
    by (simp_all add: compareFn_def)
  have "all_before lacks_assessment zero_scored (submissions ?st')"
    if "sortDirection ?st' = Asc"
  proof -
    from that have "submissions ?st' =
        array_sort (compareFn h Col_score T_number Asc) (submissions st)"
      by (simp add: sortTable_submissions sortTable_sort_state)
    then have "split_by (\<lambda>s. score_key s < 0) (submissions ?st')"
      by (simp add: score_sort_asc_split)
    then show ?thesis
      by (rule split_by_all_before) (simp_all add: lacks_key zero_key)
  qed
  with vals cmp show ?thesis by blast
qed

text \<open>A zero-scored submission in front of one without assessment: the sort swaps them.\<close>

theorem score_sort_zero_not_missing_witness:
  "lacks_assessment (new_submission ''A'' ''pending'') \<and> zero_scored (scored ''B'' 0) \<and>
   sortDirection (snd (sortTable sample_host Col_score T_number
     (initial_state\<lparr>submissions := [scored ''B'' 0, new_submission ''A'' ''pending'']\<rparr>)))
     = Asc \<and>
   submissions (snd (sortTable sample_host Col_score T_number
     (initial_state\<lparr>submissions := [scored ''B'' 0, new_submission ''A'' ''pending'']\<rparr>)))
     = [new_submission ''A'' ''pending'', scored ''B'' 0] \<and>
   all_before lacks_assessment zero_scored
     (submissions (snd (sortTable sample_host Col_score T_number
       (initial_state\<lparr>submissions := [scored ''B'' 0, new_submission ''A'' ''pending'']\<rparr>))))"
  using score_sort_zero_not_missing
    [of "new_submission ''A'' ''pending''" "scored ''B'' 0" sample_host
        "initial_state\<lparr>submissions := [scored ''B'' 0, new_submission ''A'' ''pending'']\<rparr>"]
  by (simp add: sort_eval sample_defs lacks_assessment_def zero_scored_def)

subsection \<open>Sorting by grade\<close>

lemma compareFn_grade:
  "compareFn h Col_grade T_string Asc a b =
     Some (of_int (localeCompare h (or_else (assessment_grade a) ''Z'')
                                   (or_else (assessment_grade b) ''Z'')))"
  by (simp add: compareFn_def sort_value_def)

lemma has_grade_Some: "has_grade s \<Longrightarrow> \<exists>g. assessment_grade s = Some g \<and> g \<noteq> []"
  by (cases "assessment_grade s") (simp_all add: has_grade_def)

lemma lacks_grade_sentinel: "\<not> has_grade s \<Longrightarrow> or_else (assessment_grade s) d = d"
  by (cases "assessment_grade s") (simp_all add: has_grade_def)

text \<open>
  C6, as stated, fails: a submission without grade is compared as \<open>Z\<close>, which ties
  with the grade \<open>Z\<close>, and the stable sort keeps tied submissions in their order. A
  store with an ungraded submission in front of one graded \<open>Z\<close> stays as it is under
  the ascending grade sort, the ungraded one before the graded one.
\<close>

theorem grade_sort_sentinel_tie_counterexample:
  "sortDirection (snd (sortTable sample_host Col_grade T_string
     (initial_state\<lparr>submissions := [new_submission ''U'' ''pending'', graded ''G'' ''Z'']\<rparr>)))
     = Asc \<and>
   submissions (snd (sortTable sample_host Col_grade T_string
     (initial_state\<lparr>submissions := [new_submission ''U'' ''pending'', graded ''G'' ''Z'']\<rparr>)))
     = [new_submission ''U'' ''pending'', graded ''G'' ''Z''] \<and>
   lacks_grade (new_submission ''U'' ''pending'') \<and> has_grade (graded ''G'' ''Z'') \<and>
   \<not> all_before has_grade lacks_grade
       (submissions (snd (sortTable sample_host Col_grade T_string
         (initial_state\<lparr>submissions :=
            [new_submission ''U'' ''pending'', graded ''G'' ''Z'']\<rparr>))))"
  by (simp add: sort_eval sample_defs lacks_grade_def has_grade_def toLowerCase_char_def)

text \<open>
  C6, amended: for every submission list in which each grade is ordered strictly before
  \<open>Z\<close> by the host's comparison, sorting by the grade key in ascending direction places
  every submission lacking an assessment grade after all submissions that have a grade.
\<close>

theorem grade_sort_missing_last:
  assumes "grades_before_sentinel h (submissions st)"
    and "sortDirection (snd (sortTable h Col_grade T_string st)) = Asc"
  shows "all_before has_grade lacks_grade
           (submissions (snd (sortTable h Col_grade T_string st)))"
proof -
  let ?st' = "snd (sortTable h Col_grade T_string st)"
  from assms(2) have "submissions ?st' =
      array_sort (compareFn h Col_grade T_string Asc) (submissions st)"
    by (simp add: sortTable_submissions sortTable_sort_state)
  moreover have "split_by has_grade
      (array_sort (compareFn h Col_grade T_string Asc) (submissions st))"
  proof (rule array_sort_split, intro ballI impI)
    fix x y
    assume x: "x \<in> set (submissions st)" and y: "y \<in> set (submissions st)"
      and xy: "has_grade x \<and> \<not> has_grade y"
    from xy obtain g where g: "assessment_grade x = Some g" "g \<noteq> []"
      using has_grade_Some by blast
    from xy have z: "or_else (assessment_grade y) ''Z'' = ''Z''"
      by (simp add: lacks_grade_sentinel)
    from assms(1) x have "\<not> has_grade x \<or>
        (case assessment_grade x of
           None \<Rightarrow> True
         | Some g \<Rightarrow> localeCompare h g ''Z'' < 0 \<and> 0 < localeCompare h ''Z'' g)"
      by (simp add: grades_before_sentinel_def list_all_iff)
    with xy g have "localeCompare h g ''Z'' < 0 \<and> 0 < localeCompare h ''Z'' g"
      by simp
    then show "\<not> positive (compareFn h Col_grade T_string Asc x y) \<and>
               positive (compareFn h Col_grade T_string Asc y x)"
      by (simp add: compareFn_grade g z)
  qed
  ultimately have "split_by has_grade (submissions ?st')" by simp
  then show ?thesis
    by (rule split_by_all_before) (auto simp: lacks_grade_def)
qed

text \<open>An ungraded submission in front of grades B and a: the sort gives a, B, ungraded.\<close>

theorem grade_sort_missing_last_witness:
  "grades_before_sentinel sample_host
     [new_submission ''U'' ''pending'', graded ''G'' ''B'', graded ''H'' ''a''] \<and>
   sortDirection (snd (sortTable sample_host Col_grade T_string
     (initial_state\<lparr>submissions :=
        [new_submission ''U'' ''pending'', graded ''G'' ''B'', graded ''H'' ''a'']\<rparr>)))
     = Asc \<and>
   submissions (snd (sortTable sample_host Col_grade T_string
     (initial_state\<lparr>submissions :=
        [new_submission ''U'' ''pending'', graded ''G'' ''B'', graded ''H'' ''a'']\<rparr>)))
     = [graded ''H'' ''a'', graded ''G'' ''B'', new_submission ''U'' ''pending''] \<and>
   all_before has_grade lacks_grade
     (submissions (snd (sortTable sample_host Col_grade T_string
       (initial_state\<lparr>submissions :=
          [new_submission ''U'' ''pending'', graded ''G'' ''B'', graded ''H'' ''a'']\<rparr>))))"
  using grade_sort_missing_last
    [of sample_host
        "initial_state\<lparr>submissions :=
           [new_submission ''U'' ''pending'', graded ''G'' ''B'', graded ''H'' ''a'']\<rparr>"]
  by (simp add: sort_eval sample_defs grades_before_sentinel_def has_grade_def lacks_grade_def
      toLowerCase_char_def)

end
